theory Spec2Isabelle
  imports Main "HOL-Library.AList"
begin

section \<open>Go values shared by the embedding\<close>

text \<open>
  Byte strings (Go \<open>string\<close> and \<open>[]byte\<close>) are \<open>string\<close>, a list of 8-bit
  characters.  Runes are code points, natural numbers.  Decoded JSON (Go \<open>interface{}\<close>
  holding the result of \<open>json.Unmarshal\<close>, and every configuration value) is \<open>jval\<close>;
  HOL equality on \<open>jval\<close> stands for \<open>reflect.DeepEqual\<close>.
\<close>

type_synonym rune = nat

datatype jval =
    JNull
  | JBool bool
  | JNum int
  | JStr string
  | JArr "jval list"
  | JObj "(string \<times> jval) list"

text \<open>Error values (\<open>error\<close>) and panic values of the Go code.\<close>

datatype go_error =
    EOF
  | ErrUnexpectedEOF
  | ScanError string
  | ErrSyntax string
  | ErrRange string
  | InvalidEnvelope go_error
  | JSONError

datatype panic =
    PanicError go_error
  | PanicString string
  | InterfaceConversion
  | NilDereference
  | NilMapAssignment
  | NegativeWaitGroup
  | UnlockOfUnlockedMutex

text \<open>What a call does: it returns, panics, or blocks on a mutex that is held.\<close>

datatype 'a outcome = Returns 'a | Panics panic | Blocks

section \<open>unicode/utf8 and fmt scanning, as used by \<open>fmt.Fscanln\<close>\<close>

text \<open>
  \<open>utf8.DecodeRune\<close>: the first rune of a byte string and its width in bytes; an
  invalid or short encoding is \<open>RuneError\<close> of width 1.
\<close>

definition RuneError :: rune where
  "RuneError = 0xFFFD"

definition first_size :: "nat \<Rightarrow> nat" where
  "first_size p0 = (if p0 < 0xE0 then 2 else if p0 < 0xF0 then 3 else 4)"

definition acceptLo :: "nat \<Rightarrow> nat" where
  "acceptLo p0 = (if p0 = 0xE0 then 0xA0 else if p0 = 0xF0 then 0x90 else 0x80)"

definition acceptHi :: "nat \<Rightarrow> nat" where
  "acceptHi p0 = (if p0 = 0xED then 0x9F else if p0 = 0xF4 then 0x8F else 0xBF)"

definition cont :: "nat \<Rightarrow> bool" where
  "cont b = (0x80 \<le> b \<and> b \<le> 0xBF)"

fun DecodeRune :: "string \<Rightarrow> rune \<times> nat" where
  "DecodeRune [] = (RuneError, 0)"
| "DecodeRune (c0 # p) =
    (let p0 = (of_char c0 :: nat) in
     if p0 < 0x80 then (p0, 1)
     else if p0 < 0xC2 \<or> 0xF4 < p0 then (RuneError, 1)
     else let sz = first_size p0 in
       if length p + 1 < sz then (RuneError, 1)
       else let b1 = (of_char (p ! 0) :: nat) in
         if b1 < acceptLo p0 \<or> acceptHi p0 < b1 then (RuneError, 1)
         else if sz \<le> 2 then ((p0 mod 32) * 64 + b1 mod 64, 2)
         else let b2 = (of_char (p ! 1) :: nat) in
           if \<not> cont b2 then (RuneError, 1)
           else if sz \<le> 3 then ((p0 mod 16) * 4096 + (b1 mod 64) * 64 + b2 mod 64, 3)
           else let b3 = (of_char (p ! 2) :: nat) in
             if \<not> cont b3 then (RuneError, 1)
             else ((p0 mod 8) * 262144 + (b1 mod 64) * 4096 + (b2 mod 64) * 64 + b3 mod 64, 4))"

text \<open>\<open>utf8.AppendRune\<close>: the UTF-8 encoding of a rune.\<close>

definition AppendRune :: "rune \<Rightarrow> string" where
  "AppendRune r =
    (if r \<le> 0x7F then [char_of r]
     else if r \<le> 0x7FF then [char_of (0xC0 + r div 64), char_of (0x80 + r mod 64)]
     else if 0x10FFFF < r \<or> (0xD800 \<le> r \<and> r \<le> 0xDFFF) then
       [char_of (0xEF :: nat), char_of (0xBF :: nat), char_of (0xBD :: nat)]
     else if r \<le> 0xFFFF then
       [char_of (0xE0 + r div 4096), char_of (0x80 + (r div 64) mod 64), char_of (0x80 + r mod 64)]
     else
       [char_of (0xF0 + r div 262144), char_of (0x80 + (r div 4096) mod 64),
        char_of (0x80 + (r div 64) mod 64), char_of (0x80 + r mod 64)])"

text \<open>
  \<open>ss.ReadRune\<close> on the remaining input: \<open>None\<close> at end of input, else the next rune
  and the input after it.
\<close>

definition ReadRune :: "string \<Rightarrow> (rune \<times> string) option" where
  "ReadRune bs = (if bs = [] then None else Some (fst (DecodeRune bs), drop (snd (DecodeRune bs)) bs))"

text \<open>\<open>isSpace\<close> of fmt/scan.go: the table of Unicode white space.\<close>

definition isSpace :: "rune \<Rightarrow> bool" where
  "isSpace r =
    ((0x0009 \<le> r \<and> r \<le> 0x000D) \<or> r = 0x0020 \<or> r = 0x0085 \<or> r = 0x00A0 \<or> r = 0x1680 \<or>
     (0x2000 \<le> r \<and> r \<le> 0x200A) \<or> r = 0x2028 \<or> r = 0x2029 \<or> r = 0x202F \<or> r = 0x205F \<or>
     r = 0x3000)"

lemma DecodeRune_size: "bs \<noteq> [] \<Longrightarrow> 1 \<le> snd (DecodeRune bs)"
  by (cases bs) (simp_all add: Let_def)

lemma ReadRune_shorter: "ReadRune bs = Some (r, rest) \<Longrightarrow> length rest < length bs"
proof -
  assume h: "ReadRune bs = Some (r, rest)"
  then have ne: "bs \<noteq> []" by (auto simp: ReadRune_def split: if_splits)
  with h have "rest = drop (snd (DecodeRune bs)) bs" by (simp add: ReadRune_def)
  moreover have "1 \<le> snd (DecodeRune bs)" using ne by (rule DecodeRune_size)
  ultimately show ?thesis using ne by (cases bs) auto
qed

definition peek :: "rune list \<Rightarrow> string \<Rightarrow> bool" where
  "peek ok bs = (case ReadRune bs of None \<Rightarrow> False | Some (r, rest) \<Rightarrow> r \<in> set ok)"

text \<open>
  \<open>ss.SkipSpace\<close> with \<open>nlIsSpace = false\<close> (the \<open>Fscanln\<close> setting): blanks are
  skipped, a newline is an error.
\<close>

function SkipSpace :: "string \<Rightarrow> go_error + string" where
  "SkipSpace bs =
    (case ReadRune bs of
       None \<Rightarrow> Inr bs
     | Some (r, rest) \<Rightarrow>
         if r = 13 \<and> peek [10] rest then SkipSpace rest
         else if r = 10 then Inl (ScanError ''unexpected newline'')
         else if \<not> isSpace r then Inr bs
         else SkipSpace rest)"
  by pat_completeness auto
termination
  by (relation "measure length") (auto dest: ReadRune_shorter)

declare SkipSpace.simps [simp del]

text \<open>\<open>ss.notEOF\<close>: \<open>panic(io.EOF)\<close>, which \<open>errorHandler\<close> turns into the error \<open>io.EOF\<close>.\<close>

definition notEOF :: "string \<Rightarrow> go_error + string" where
  "notEOF bs = (if bs = [] then Inl EOF else Inr bs)"

text \<open>The reading loop of \<open>ss.token\<close> with the predicate \<open>notSpace\<close>.\<close>

function token :: "string \<Rightarrow> string \<Rightarrow> string \<times> string" where
  "token buf bs =
    (case ReadRune bs of
       None \<Rightarrow> (buf, bs)
     | Some (r, rest) \<Rightarrow> if isSpace r then (buf, bs) else token (buf @ AppendRune r) rest)"
  by pat_completeness auto
termination
  by (relation "measure (\<lambda>(buf, bs). length bs)") (auto dest: ReadRune_shorter)

declare token.simps [simp del]

text \<open>\<open>ss.convertString\<close> for the verb \<open>v\<close>: the next blank-delimited word.\<close>

definition convertString :: "string \<Rightarrow> go_error + (string \<times> string)" where
  "convertString bs =
    (case SkipSpace bs of Inl e \<Rightarrow> Inl e | Inr bs1 \<Rightarrow>
    (case notEOF bs1 of Inl e \<Rightarrow> Inl e | Inr bs2 \<Rightarrow>
    (case SkipSpace bs2 of Inl e \<Rightarrow> Inl e | Inr bs3 \<Rightarrow> Inr (token [] bs3))))"

text \<open>\<open>ss.accept\<close> (that is \<open>consume(ok, true)\<close>) and the loop \<open>for s.accept(digits) {}\<close>.\<close>

definition accept :: "rune list \<Rightarrow> string \<Rightarrow> string \<Rightarrow> bool \<times> string \<times> string" where
  "accept ok buf bs =
    (case ReadRune bs of
       None \<Rightarrow> (False, buf, bs)
     | Some (r, rest) \<Rightarrow> if r \<in> set ok then (True, buf @ AppendRune r, rest) else (False, buf, bs))"

function accept_all :: "rune list \<Rightarrow> string \<Rightarrow> string \<Rightarrow> string \<times> string" where
  "accept_all ok buf bs =
    (case ReadRune bs of
       None \<Rightarrow> (buf, bs)
     | Some (r, rest) \<Rightarrow> if r \<in> set ok then accept_all ok (buf @ AppendRune r) rest else (buf, bs))"
  by pat_completeness auto
termination
  by (relation "measure (\<lambda>(ok, buf, bs). length bs)") (auto dest: ReadRune_shorter)

declare accept_all.simps [simp del]

definition binaryDigits :: "rune list" where
  "binaryDigits = [48, 49]"

definition octalDigits :: "rune list" where
  "octalDigits = [48, 49, 50, 51, 52, 53, 54, 55]"

definition decimalDigits :: "rune list" where
  "decimalDigits = [48, 49, 50, 51, 52, 53, 54, 55, 56, 57]"

definition hexadecimalDigits :: "rune list" where
  "hexadecimalDigits = decimalDigits @ [97, 65, 98, 66, 99, 67, 100, 68, 101, 69, 102, 70]"

text \<open>
  \<open>ss.scanBasePrefix\<close>: the digits that may follow and whether a digit (the leading
  \<open>0\<close>) was already read.  The rune 95 is the underscore.
\<close>

definition scanBasePrefix :: "string \<Rightarrow> string \<Rightarrow> rune list \<times> bool \<times> string \<times> string" where
  "scanBasePrefix buf bs =
    (if \<not> peek [48] bs then (decimalDigits @ [95], False, buf, bs)
     else (case accept [48] buf bs of (u, buf1, bs1) \<Rightarrow>
       if peek [98, 66] bs1 then
         (case accept [98, 66] buf1 bs1 of (v, buf2, bs2) \<Rightarrow> (binaryDigits @ [95], True, buf2, bs2))
       else if peek [111, 79] bs1 then
         (case accept [111, 79] buf1 bs1 of (v, buf2, bs2) \<Rightarrow> (octalDigits @ [95], True, buf2, bs2))
       else if peek [120, 88] bs1 then
         (case accept [120, 88] buf1 bs1 of (v, buf2, bs2) \<Rightarrow> (hexadecimalDigits @ [95], True, buf2, bs2))
       else (octalDigits @ [95], True, buf1, bs1)))"

definition scanNumber :: "rune list \<Rightarrow> bool \<Rightarrow> string \<Rightarrow> string \<Rightarrow> go_error + (string \<times> string)" where
  "scanNumber digits haveDigits buf bs =
    (if \<not> haveDigits then
       (case notEOF bs of Inl e \<Rightarrow> Inl e | Inr bs0 \<Rightarrow>
       (case accept digits buf bs0 of (ok, buf1, bs1) \<Rightarrow>
          if \<not> ok then Inl (ScanError ''expected integer'') else Inr (accept_all digits buf1 bs1)))
     else Inr (accept_all digits buf bs))"

text \<open>
  \<open>strconv.ParseInt(tok, 0, 64)\<close>, the call \<open>ss.scanInt\<close> makes for the verb \<open>v\<close>:
  base 0 takes the base from the prefix and allows underscores between digits.
  \<open>lower c\<close> is \<open>c | 0x20\<close>.
\<close>

definition lower :: "nat \<Rightarrow> nat" where
  "lower c = (if (c div 32) mod 2 = 1 then c else c + 32)"

definition digitVal :: "nat \<Rightarrow> nat option" where
  "digitVal c =
    (if 48 \<le> c \<and> c \<le> 57 then Some (c - 48)
     else if 97 \<le> lower c \<and> lower c \<le> 122 then Some (lower c - 97 + 10)
     else None)"

fun ParseUint_digits :: "nat \<Rightarrow> string \<Rightarrow> nat \<Rightarrow> string \<Rightarrow> go_error + nat" where
  "ParseUint_digits base s0 n [] = Inr n"
| "ParseUint_digits base s0 n (c # cs) =
    (if (of_char c :: nat) = 95 then ParseUint_digits base s0 n cs
     else (case digitVal (of_char c) of
       None \<Rightarrow> Inl (ErrSyntax s0)
     | Some d \<Rightarrow>
         if base \<le> d then Inl (ErrSyntax s0)
         else if 2 ^ 64 \<le> int (n * base + d) then Inl (ErrRange s0)
         else ParseUint_digits base s0 (n * base + d) cs))"

datatype saw = SawStart | SawDigit | SawUnderscore | SawOther

fun underscoreOK_from :: "bool \<Rightarrow> saw \<Rightarrow> string \<Rightarrow> bool" where
  "underscoreOK_from hex sw [] = (sw \<noteq> SawUnderscore)"
| "underscoreOK_from hex sw (c # cs) =
    (let b = (of_char c :: nat) in
     if (48 \<le> b \<and> b \<le> 57) \<or> (hex \<and> 97 \<le> lower b \<and> lower b \<le> 102) then
       underscoreOK_from hex SawDigit cs
     else if b = 95 then (if sw \<noteq> SawDigit then False else underscoreOK_from hex SawUnderscore cs)
     else if sw = SawUnderscore then False
     else underscoreOK_from hex SawOther cs)"

definition has_prefix_char :: "string \<Rightarrow> nat \<Rightarrow> bool" where
  "has_prefix_char s c = (of_char (hd s) = (48 :: nat) \<and> lower (of_char (s ! 1)) = c)"

definition underscoreOK :: "string \<Rightarrow> bool" where
  "underscoreOK s0 =
    (let s = (if 1 \<le> length s0 \<and> (hd s0 = CHR ''-'' \<or> hd s0 = CHR ''+'') then tl s0 else s0) in
     if 2 \<le> length s \<and> (has_prefix_char s 98 \<or> has_prefix_char s 111 \<or> has_prefix_char s 120)
     then underscoreOK_from (has_prefix_char s 120) SawDigit (drop 2 s)
     else underscoreOK_from False SawStart s)"

definition ParseUint :: "string \<Rightarrow> go_error + nat" where
  "ParseUint s =
    (if s = [] then Inl (ErrSyntax s)
     else (case
       (if of_char (hd s) = (48 :: nat) then
          (if 3 \<le> length s \<and> has_prefix_char s 98 then (2, drop 2 s)
           else if 3 \<le> length s \<and> has_prefix_char s 111 then (8, drop 2 s)
           else if 3 \<le> length s \<and> has_prefix_char s 120 then (16, drop 2 s)
           else (8, drop 1 s))
        else (10, s))
      of (base, ds) \<Rightarrow>
        (case ParseUint_digits base s 0 ds of
           Inl e \<Rightarrow> Inl e
         | Inr n \<Rightarrow> if CHR ''_'' \<in> set ds \<and> \<not> underscoreOK s then Inl (ErrSyntax s) else Inr n)))"

definition ParseInt :: "string \<Rightarrow> go_error + int" where
  "ParseInt s0 =
    (if s0 = [] then Inl (ErrSyntax s0)
     else
       let neg = (hd s0 = CHR ''-'');
           s = (if hd s0 = CHR ''+'' \<or> neg then tl s0 else s0)
       in (case ParseUint s of
            Inl (ErrRange x) \<Rightarrow> Inl (ErrRange s0)
          | Inl e \<Rightarrow> Inl (ErrSyntax s0)
          | Inr un \<Rightarrow>
              if \<not> neg \<and> 2 ^ 63 \<le> int un then Inl (ErrRange s0)
              else if neg \<and> 2 ^ 63 < int un then Inl (ErrRange s0)
              else Inr (if neg then - int un else int un)))"

text \<open>
  \<open>ss.scanInt\<close> for the verb \<open>v\<close> and a 64-bit \<open>int\<close>: an optional sign (runes 43 and
  45), the base prefix, the digits, then the conversion.
\<close>

definition scanInt :: "string \<Rightarrow> go_error + (int \<times> string)" where
  "scanInt bs =
    (case SkipSpace bs of Inl e \<Rightarrow> Inl e | Inr bs1 \<Rightarrow>
    (case notEOF bs1 of Inl e \<Rightarrow> Inl e | Inr bs2 \<Rightarrow>
    (case accept [43, 45] [] bs2 of (sg, buf1, bs3) \<Rightarrow>
    (case scanBasePrefix buf1 bs3 of (digits, haveDigits, buf2, bs4) \<Rightarrow>
    (case scanNumber digits haveDigits buf2 bs4 of Inl e \<Rightarrow> Inl e | Inr (tok, bs5) \<Rightarrow>
    (case ParseInt tok of Inl e \<Rightarrow> Inl e | Inr i \<Rightarrow> Inr (i, bs5)))))))"

text \<open>
  The end of \<open>ss.doScan\<close> when \<open>nlIsEnd\<close> holds: only blanks may stand before the
  newline (or the end of input), and the newline is consumed.
\<close>

function expectNewline :: "string \<Rightarrow> go_error + string" where
  "expectNewline bs =
    (case ReadRune bs of
       None \<Rightarrow> Inr bs
     | Some (r, rest) \<Rightarrow>
         if r = 10 then Inr rest
         else if \<not> isSpace r then Inl (ScanError ''expected newline'')
         else expectNewline rest)"
  by pat_completeness auto
termination
  by (relation "measure length") (auto dest: ReadRune_shorter)

declare expectNewline.simps [simp del]

text \<open>
  \<open>fmt.Fscanln(in, &channel, &subject, &size)\<close> on the input \<open>bs\<close>: the three
  operands and the input left after the line, or the error.
\<close>

definition Fscanln :: "string \<Rightarrow> go_error + ((string \<times> string \<times> int) \<times> string)" where
  "Fscanln bs =
    (case convertString bs of Inl e \<Rightarrow> Inl e | Inr (channel, bs1) \<Rightarrow>
    (case convertString bs1 of Inl e \<Rightarrow> Inl e | Inr (subject, bs2) \<Rightarrow>
    (case scanInt bs2 of Inl e \<Rightarrow> Inl e | Inr (sz, bs3) \<Rightarrow>
    (case expectNewline bs3 of Inl e \<Rightarrow> Inl e | Inr bs4 \<Rightarrow> Inr ((channel, subject, sz), bs4)))))"

text \<open>\<open>io.ReadFull(in, buf)\<close> for a buffer of \<open>n\<close> bytes.\<close>

definition ReadFull :: "nat \<Rightarrow> string \<Rightarrow> go_error + (string \<times> string)" where
  "ReadFull n bs =
    (if n \<le> length bs then Inr (take n bs, drop n bs)
     else if bs = [] then Inl EOF
     else Inl ErrUnexpectedEOF)"

text \<open>The verb \<open>%d\<close> of \<open>fmt.Fprintf\<close> on a length (never negative).\<close>

fun itoa :: "nat \<Rightarrow> string" where
  "itoa n = (if n < 10 then [char_of (48 + n)] else itoa (n div 10) @ [char_of (48 + n mod 10)])"

declare itoa.simps [simp del]

section \<open>dipper/comm.go\<close>

datatype payload = PNil | PBytes string | PValue jval

record Message =
  Channel :: string
  Subject :: string
  Size :: int
  IsRaw :: bool
  Payload :: payload

text \<open>
  \<open>json.Marshal\<close> and \<open>json.Unmarshal\<close> are parameters (\<open>None\<close> is their error).  A JSON
  \<open>null\<close> decodes to the nil interface.
\<close>

definition SerializeContent :: "(jval \<Rightarrow> string option) \<Rightarrow> payload \<Rightarrow> panic + string" where
  "SerializeContent marshal content =
    (case content of
       PNil \<Rightarrow> Inr []
     | PBytes b \<Rightarrow> (case marshal (JStr b) of None \<Rightarrow> Inl (PanicError JSONError) | Some ret \<Rightarrow> Inr ret)
     | PValue v \<Rightarrow> (case marshal v of None \<Rightarrow> Inl (PanicError JSONError) | Some ret \<Rightarrow> Inr ret))"

definition DeserializeContent :: "(string \<Rightarrow> jval option) \<Rightarrow> string \<Rightarrow> panic + payload" where
  "DeserializeContent unmarshal content =
    (if 0 < length content then
       (case unmarshal content of
          None \<Rightarrow> Inl (PanicError JSONError)
        | Some ret \<Rightarrow> Inr (if ret = JNull then PNil else PValue ret))
     else Inr PNil)"

definition DeserializePayload :: "(string \<Rightarrow> jval option) \<Rightarrow> Message \<Rightarrow> panic + Message" where
  "DeserializePayload unmarshal msg =
    (if IsRaw msg then
       (case Payload msg of
          PBytes b \<Rightarrow>
            (case DeserializeContent unmarshal b of
               Inl p \<Rightarrow> Inl p
             | Inr v \<Rightarrow> Inr (msg\<lparr>Payload := v\<rparr>))
        | PNil \<Rightarrow> Inl InterfaceConversion
        | PValue v \<Rightarrow> Inl InterfaceConversion)
     else Inr msg)"

definition FetchRawMessage :: "string \<Rightarrow> panic + (Message \<times> string)" where
  "FetchRawMessage inp =
    (case Fscanln inp of
       Inl err \<Rightarrow>
         if err \<noteq> EOF then Inl (PanicError (InvalidEnvelope err)) else Inl (PanicError err)
     | Inr ((channel, subject, sz), rest) \<Rightarrow>
         let msg = \<lparr>Channel = channel, Subject = subject, Size = sz, IsRaw = True, Payload = PNil\<rparr>
         in if 0 < sz then
              (case ReadFull (nat sz) rest of
                 Inl err \<Rightarrow> Inl (PanicError err)
               | Inr (buf, rest') \<Rightarrow> Inr (msg\<lparr>Payload := PBytes buf\<rparr>, rest'))
            else Inr (msg, rest))"

definition FetchMessage :: "(string \<Rightarrow> jval option) \<Rightarrow> string \<Rightarrow> panic + (Message \<times> string)" where
  "FetchMessage unmarshal inp =
    (case FetchRawMessage inp of
       Inl p \<Rightarrow> Inl p
     | Inr (msg, rest) \<Rightarrow>
         (case DeserializePayload unmarshal msg of Inl p \<Rightarrow> Inl p | Inr m \<Rightarrow> Inr (m, rest)))"

text \<open>
  The registry \<open>CommLocks\<close> (a writer is known by its identity, a number; \<open>True\<close> is a
  held mutex) and what has been written to each writer.  \<open>MasterCommLock\<close> is taken and
  released inside each call, so it is free at every call of a sequential run and is left
  out.  Writers are in-memory buffers: a write appends and does not fail.
\<close>

type_synonym writer = nat

record comm =
  CommLocks :: "writer \<rightharpoonup> bool"
  written :: "writer \<Rightarrow> string"

definition LockComm :: "writer \<Rightarrow> comm \<Rightarrow> comm outcome" where
  "LockComm out st =
    (case CommLocks st out of
       None \<Rightarrow> Returns (st\<lparr>CommLocks := (CommLocks st)(out \<mapsto> True)\<rparr>)
     | Some held \<Rightarrow>
         if held then Blocks else Returns (st\<lparr>CommLocks := (CommLocks st)(out \<mapsto> True)\<rparr>))"

definition UnlockComm :: "writer \<Rightarrow> comm \<Rightarrow> comm outcome" where
  "UnlockComm out st =
    (case CommLocks st out of
       None \<Rightarrow> Panics (PanicString ''comm lock not found'')
     | Some held \<Rightarrow>
         if held then Returns (st\<lparr>CommLocks := (CommLocks st)(out \<mapsto> False)\<rparr>)
         else Panics UnlockOfUnlockedMutex)"

definition RemoveComm :: "writer \<Rightarrow> comm \<Rightarrow> comm" where
  "RemoveComm out st =
    (if CommLocks st out \<noteq> None then st\<lparr>CommLocks := (CommLocks st)(out := None)\<rparr> else st)"

definition Write :: "writer \<Rightarrow> string \<Rightarrow> comm \<Rightarrow> comm" where
  "Write out bs st = st\<lparr>written := (written st)(out := written st out @ bs)\<rparr>"

definition SendRawMessage :: "writer \<Rightarrow> string \<Rightarrow> string \<Rightarrow> string \<Rightarrow> comm \<Rightarrow> comm outcome" where
  "SendRawMessage out channel subject payload st =
    (case LockComm out st of
       Blocks \<Rightarrow> Blocks
     | Panics p \<Rightarrow> Panics p
     | Returns st1 \<Rightarrow>
         let sz = length payload;
             st2 = Write out (channel @ '' '' @ subject @ '' '' @ itoa sz @ [CHR 0x0A]) st1;
             st3 = (if 0 < sz then Write out payload st2 else st2)
         in UnlockComm out st3)"

definition SendMessage ::
  "(jval \<Rightarrow> string option) \<Rightarrow> writer \<Rightarrow> string \<Rightarrow> string \<Rightarrow> payload \<Rightarrow> comm \<Rightarrow> comm outcome" where
  "SendMessage marshal out channel subject content st =
    (case SerializeContent marshal content of
       Inl p \<Rightarrow> Panics p
     | Inr bytes \<Rightarrow> SendRawMessage out channel subject bytes st)"

section \<open>internal/service/service.go\<close>

text \<open>
  Pointers are numbers (\<open>ref\<close>); a pointer that may be nil is a \<open>ref option\<close>.  The
  heap holds the \<open>driver.Runtime\<close> objects, so two slots holding the same number hold the
  same object.
\<close>

type_synonym ref = nat

text \<open>
  Modelled from the spec: the package \<open>internal/driver\<close> is not under src.  A runtime has
  a feature, the name of the owning service, the driver descriptor returned by
  \<open>Handler.Meta()\<close>, the configuration snapshots \<open>Data\<close> and \<open>DynamicData\<close>, and a state,
  one of Loading, Alive, Failed, Reloading, Stopped.
\<close>

datatype DriverState = DriverLoading | DriverAlive | DriverFailed | DriverReloading | DriverStopped

record Runtime =
  Feature :: string
  Service :: string
  Meta :: jval
  Data :: jval
  DynamicData :: jval
  State :: DriverState

text \<open>
  Modelled from the spec: the message of \<open>pkg/dipper\<close> (not under src) is the message
  of comm.go with labels, a map from string to string that may be nil.
\<close>

record LMessage = Message +
  Labels :: "(string \<rightharpoonup> string) option"

datatype Stage = StageBooting | StageDiscovering | StageServing | StageDrained

text \<open>
  Calls into code that is not under src, and goroutines that are started, are recorded
  in a trace, in the order the code makes them: \<open>driver.Runtime.Start\<close>, \<open>SendOptions\<close>
  and \<open>SendMessage\<close>, the goroutine of \<open>coldReload\<close> that waits for the child and the one
  that closes the replaced handler after a delay in milliseconds, the goroutine started
  by \<open>addExpect\<close>, the run of an expect handler, of a timeout callback or of a responder,
  the goroutine of \<open>process\<close> that transforms and routes, \<open>RPCCallerBase.HandleReturn\<close>,
  \<open>config.AdvanceStage\<close>, and \<open>dipper.WaitGroupWaitTimeout\<close> with its timeout in
  milliseconds.
\<close>

datatype Event =
    Start ref string
  | SendOptions ref
  | SendMessageTo ref LMessage
  | Supervise ref
  | CloseAfter ref nat
  | Timer string nat nat nat
  | RunHandler nat LMessage
  | RunExcept nat
  | RunResponder nat ref LMessage
  | TransformAndRoute ref LMessage
  | HandleReturn string LMessage
  | AdvanceStage string Stage
  | WaitGroupWaitTimeout nat

text \<open>
  The configuration collaborator (\<open>internal/config\<close>, not under src) is a parameter: its
  two lookups into the staged data.
\<close>

record Config =
  GetStagedDriverDataStr :: "string \<Rightarrow> string option"
  GetStagedDriverData :: "string \<Rightarrow> jval option"

text \<open>
  The fields of \<open>Service\<close> that the modelled functions use.  \<open>driverRuntimes\<close> is an
  association list, so that a loop over the map has an order; the order is arbitrary.
  The map holds no nil pointer: \<open>setDriverRuntime\<close>, its only writer, stores the
  runtime it has just built.  Expect handlers, timeout callbacks and responders are
  closures, known by a number.  \<open>drainingGroup\<close> is the pointer to the wait-group, with
  the value of its counter.
\<close>

record Service =
  name :: string
  config :: Config
  driverRuntimes :: "(string \<times> ref) list"
  expects :: "string \<rightharpoonup> nat list"
  responders :: "string \<rightharpoonup> nat list"
  dynamicFeatureData :: "string \<rightharpoonup> jval"
  healthy :: bool
  drainingGroup :: "int option"

text \<open>
  The process: the heap of runtimes with the next unused pointer, the catalog
  \<open>Services\<close> (a \<open>*Service\<close> is known by the name it is registered under), the keys of
  \<open>daemon.Emitters\<close>, and the trace.
\<close>

record World =
  heap :: "ref \<Rightarrow> Runtime"
  nextRef :: ref
  Services :: "string \<rightharpoonup> Service"
  Emitters :: "string set"
  trace :: "Event list"

definition FeatureEmitter :: string where
  "FeatureEmitter = ''emitter''"

definition DriverGracefulTimeout :: nat where
  "DriverGracefulTimeout = 50"

definition DriverReadyTimeout :: nat where
  "DriverReadyTimeout = 10"

definition emit :: "Event \<Rightarrow> World \<Rightarrow> World" where
  "emit e w = w\<lparr>trace := trace w @ [e]\<rparr>"

definition setService :: "string \<Rightarrow> Service \<Rightarrow> World \<Rightarrow> World" where
  "setService sn s w = w\<lparr>Services := (Services w)(sn \<mapsto> s)\<rparr>"

definition setRuntime :: "ref \<Rightarrow> Runtime \<Rightarrow> World \<Rightarrow> World" where
  "setRuntime r rt w = w\<lparr>heap := (heap w)(r := rt)\<rparr>"

text \<open>
  Modelled from the spec: \<open>dipper.LockGetMap\<close>, \<open>LockSetMap\<close> and \<open>LockCheckDeleteMap\<close>
  are not under src; they read, write and compare-and-delete by identity under the lock.
\<close>

definition LockGetMap :: "(string \<times> ref) list \<Rightarrow> string \<Rightarrow> ref option" where
  "LockGetMap m k = map_of m k"

definition LockSetMap :: "(string \<times> ref) list \<Rightarrow> string \<Rightarrow> ref \<Rightarrow> (string \<times> ref) list" where
  "LockSetMap m k v = AList.update k v m"

definition LockCheckDeleteMap ::
  "(string \<times> ref) list \<Rightarrow> string \<Rightarrow> ref option \<Rightarrow> (string \<times> ref) list" where
  "LockCheckDeleteMap m k check =
    (case map_of m k of
       None \<Rightarrow> m
     | Some v \<Rightarrow> if Some v = check then AList.delete k m else m)"

definition getDriverRuntime :: "Service \<Rightarrow> string \<Rightarrow> ref option" where
  "getDriverRuntime s feature = LockGetMap (driverRuntimes s) feature"

definition setDriverRuntime :: "string \<Rightarrow> ref \<Rightarrow> Service \<Rightarrow> Service" where
  "setDriverRuntime feature runtime s =
    s\<lparr>driverRuntimes := LockSetMap (driverRuntimes s) feature runtime\<rparr>"

definition checkDeleteDriverRuntime :: "string \<Rightarrow> ref option \<Rightarrow> Service \<Rightarrow> Service" where
  "checkDeleteDriverRuntime feature check s =
    s\<lparr>driverRuntimes := LockCheckDeleteMap (driverRuntimes s) feature check\<rparr>"

text \<open>
  Modelled from the spec: \<open>driver.NewDriver\<close> builds a runtime descriptor (state
  Loading) and does not spawn; \<open>Start\<close> spawns the child for the named service.
\<close>

definition NewDriver :: "string \<Rightarrow> jval \<Rightarrow> jval \<Rightarrow> jval \<Rightarrow> World \<Rightarrow> ref \<times> World" where
  "NewDriver feature driverMeta driverData dynamicData w =
    (nextRef w,
     w\<lparr>heap := (heap w)(nextRef w :=
          \<lparr>Feature = feature, Service = [], Meta = driverMeta, Data = driverData,
           DynamicData = dynamicData, State = DriverLoading\<rparr>),
       nextRef := Suc (nextRef w)\<rparr>)"

definition StartRuntime :: "ref \<Rightarrow> string \<Rightarrow> World \<Rightarrow> World" where
  "StartRuntime r serviceName w =
    emit (Start r serviceName) (setRuntime r ((heap w r)\<lparr>Service := serviceName\<rparr>) w)"

definition hotReload :: "ref \<Rightarrow> ref \<Rightarrow> World \<Rightarrow> World" where
  "hotReload driverRuntime oldRuntime w =
    (let w1 = setRuntime oldRuntime ((heap w oldRuntime)\<lparr>Data := Data (heap w driverRuntime)\<rparr>) w;
         w2 = setRuntime oldRuntime
                ((heap w1 oldRuntime)\<lparr>DynamicData := DynamicData (heap w1 driverRuntime)\<rparr>) w1;
         w3 = setRuntime oldRuntime ((heap w2 oldRuntime)\<lparr>State := DriverReloading\<rparr>) w2
     in emit (SendOptions oldRuntime) w3)"

definition coldReload :: "string \<Rightarrow> Service \<Rightarrow> ref \<Rightarrow> ref option \<Rightarrow> World \<Rightarrow> World" where
  "coldReload sn s driverRuntime oldRuntime w =
    (let w1 = StartRuntime driverRuntime (name s) w;
         feature = Feature (heap w1 driverRuntime);
         s1 = setDriverRuntime feature driverRuntime s;
         w2 = emit (Supervise driverRuntime) (setService sn s1 w1)
     in case oldRuntime of
          None \<Rightarrow> w2
        | Some old \<Rightarrow>
            let s2 = checkDeleteDriverRuntime feature None s1;
                w3 = setService sn s2 w2;
                w4 = (if feature = FeatureEmitter then w3\<lparr>Emitters := Emitters w3 - {name s}\<rparr> else w3)
            in emit (CloseAfter old DriverGracefulTimeout) w4)"

text \<open>
  \<open>loadFeature\<close> up to its deferred \<open>recover\<close>: a panic, with the driver name assigned so
  far, or the result \<open>affected\<close>, the driver name and the process afterwards.
\<close>

definition HasPrefix :: "string \<Rightarrow> string \<Rightarrow> bool" where
  "HasPrefix s pre = (take (length pre) s = pre)"

definition resolveDriverName :: "Service \<Rightarrow> string \<Rightarrow> string option" where
  "resolveDriverName s feature =
    (if HasPrefix feature ''driver:'' then Some (drop 7 feature)
     else case GetStagedDriverDataStr (config s) (''daemon.featureMap.'' @ name s @ ''.'' @ feature) of
        Some d \<Rightarrow> Some d
      | None \<Rightarrow> GetStagedDriverDataStr (config s) (''daemon.featureMap.global.'' @ feature))"

definition loadFeature_body ::
  "string \<Rightarrow> string \<Rightarrow> World \<Rightarrow> (panic \<times> string) + (bool \<times> string \<times> World)" where
  "loadFeature_body sn feature w =
    (case Services w sn of
       None \<Rightarrow> Inl (NilDereference, [])
     | Some s \<Rightarrow>
        let oldRuntime = getDriverRuntime s feature in
        (case resolveDriverName s feature of
           None \<Rightarrow> Inl (PanicString ''driver not defined for the feature'', [])
         | Some driverName \<Rightarrow>
            let driverData = (case GetStagedDriverData (config s) driverName of
                                None \<Rightarrow> JNull | Some d \<Rightarrow> d);
                dynamicData = (if HasPrefix feature ''driver:''
                               then (case dynamicFeatureData s feature of None \<Rightarrow> JNull | Some d \<Rightarrow> d)
                               else JNull)
            in (case GetStagedDriverData (config s) (''daemon.drivers.'' @ driverName) of
                  None \<Rightarrow> Inl (PanicString ''unable to get driver metadata'', driverName)
                | Some (JObj meta) \<Rightarrow>
                   (case NewDriver feature (JObj meta) driverData dynamicData w of
                      (driverRuntime, w1) \<Rightarrow>
                        let driverMetaUnchanged =
                              (case oldRuntime of None \<Rightarrow> False
                               | Some old \<Rightarrow> Meta (heap w1 old) = Meta (heap w1 driverRuntime));
                            driverRunning =
                              (case oldRuntime of None \<Rightarrow> False
                               | Some old \<Rightarrow> State (heap w1 old) \<noteq> DriverFailed)
                        in (case (if driverRunning \<and> driverMetaUnchanged then oldRuntime else None) of
                              Some old \<Rightarrow>
                                if Data (heap w1 old) = Data (heap w1 driverRuntime)
                                   \<and> DynamicData (heap w1 old) = DynamicData (heap w1 driverRuntime)
                                then Inr (False, driverName, w1)
                                else Inr (True, driverName, hotReload driverRuntime old w1)
                            | None \<Rightarrow>
                                Inr (True, driverName, coldReload sn s driverRuntime oldRuntime w1)))
                | Some other \<Rightarrow> Inl (InterfaceConversion, driverName))))"

text \<open>
  \<open>loadFeature\<close> with its \<open>recover\<close>: after a panic the runtime in the slot, if any, is
  marked Failed and the panic is returned as the error.
\<close>

definition loadFeature :: "string \<Rightarrow> string \<Rightarrow> World \<Rightarrow> (bool \<times> string \<times> panic option) \<times> World" where
  "loadFeature sn feature w =
    (case loadFeature_body sn feature w of
       Inr (affected, driverName, w') \<Rightarrow> ((affected, driverName, None), w')
     | Inl (p, driverName) \<Rightarrow>
         ((False, driverName, Some p),
          (case Services w sn of
             None \<Rightarrow> w
           | Some s \<Rightarrow>
               (case getDriverRuntime s feature of
                  None \<Rightarrow> w
                | Some r \<Rightarrow> setRuntime r ((heap w r)\<lparr>State := DriverFailed\<rparr>) w))))"

text \<open>
  The expect table.  \<open>addExpect\<close> appends the handler and starts the goroutine that
  sleeps for the timeout (recorded as \<open>Timer\<close>); \<open>timerFires\<close> is what that goroutine does
  when it wakes up.  In its branch for a list of more than one handler the loop compares
  \<open>&expects[i]\<close>, the address of a slice element, with \<open>&processor\<close>, the address of the
  parameter, which are never equal, and it assigns only the local variable \<open>expects\<close>:
  the table of the service is left as it is.
\<close>

definition addExpect :: "string \<Rightarrow> nat \<Rightarrow> nat \<Rightarrow> nat \<Rightarrow> Service \<Rightarrow> World \<Rightarrow> Service \<times> World" where
  "addExpect expectKey processor timeout except s w =
    (s\<lparr>expects := (expects s)(expectKey \<mapsto>
          (case expects s expectKey of None \<Rightarrow> [] | Some es \<Rightarrow> es) @ [processor])\<rparr>,
     emit (Timer expectKey processor timeout except) w)"

definition isExpecting :: "Service \<Rightarrow> string \<Rightarrow> nat list option" where
  "isExpecting s expectKey = expects s expectKey"

definition deleteExpect :: "string \<Rightarrow> Service \<Rightarrow> nat list option \<times> Service" where
  "deleteExpect expectKey s =
    (case expects s expectKey of
       None \<Rightarrow> (None, s)
     | Some ret \<Rightarrow> (Some ret, s\<lparr>expects := (expects s)(expectKey := None)\<rparr>))"

definition timerFires :: "string \<Rightarrow> nat \<Rightarrow> nat \<Rightarrow> Service \<Rightarrow> World \<Rightarrow> Service \<times> World" where
  "timerFires expectKey processor except s w =
    (case isExpecting s expectKey of
       None \<Rightarrow> (s, w)
     | Some es \<Rightarrow>
         ((if 1 < length es then s else s\<lparr>expects := (expects s)(expectKey := None)\<rparr>),
          emit (RunExcept except) w))"

text \<open>
  \<open>process\<close>: the expect handlers of the key \<open>channel:subject:driverMetaName\<close> are
  removed and started, then the responders of \<open>channel:subject\<close>, then the goroutine that
  transforms and routes.  The name of the driver is a parameter (it is read from the
  handler's descriptor).
\<close>

definition process :: "(jval \<Rightarrow> string) \<Rightarrow> LMessage \<Rightarrow> ref \<Rightarrow> Service \<Rightarrow> World \<Rightarrow> Service \<times> World" where
  "process metaName msg runtime s w =
    (let expectKey = Channel msg @ '':'' @ Subject msg @ '':'' @ metaName (Meta (heap w runtime));
         key = Channel msg @ '':'' @ Subject msg
     in case deleteExpect expectKey s of
          (found, s1) \<Rightarrow>
            let w1 = (case found of
                        None \<Rightarrow> w
                      | Some es \<Rightarrow> w\<lparr>trace := trace w @ map (\<lambda>f. RunHandler f msg) es\<rparr>);
                w2 = (case responders s1 key of
                        None \<Rightarrow> w1
                      | Some fs \<Rightarrow> w1\<lparr>trace := trace w1 @ map (\<lambda>f. RunResponder f runtime msg) fs\<rparr>)
            in (s1, emit (TransformAndRoute runtime msg) w2))"




text \<open>\<open>sync.WaitGroup.Done\<close>: a counter that would become negative panics.\<close>

definition handleDriverStop :: "ref \<Rightarrow> World \<Rightarrow> panic option \<times> World" where
  "handleDriverStop from w =
    (if State (heap w from) \<noteq> DriverStopped then
       let w1 = setRuntime from ((heap w from)\<lparr>State := DriverStopped\<rparr>) w in
       (case Services w1 (Service (heap w1 from)) of
          None \<Rightarrow> (Some NilDereference, w1)
        | Some s \<Rightarrow>
            (case drainingGroup s of
               None \<Rightarrow> (Some NilDereference, w1)
             | Some c \<Rightarrow>
                 if c - 1 < 0 then (Some NegativeWaitGroup, w1)
                 else (None, setService (Service (heap w1 from)) (s\<lparr>drainingGroup := Some (c - 1)\<rparr>) w1)))
     else (None, w))"

text \<open>
  \<open>process\<close> starts every responder in a goroutine of its own, and \<open>handleDriverStop\<close>
  takes no lock, so two calls for one runtime can interleave.  The actions of one call
  are: read \<open>from.State\<close> and compare it, write \<open>from.State\<close>, and \<open>Done\<close> on the
  wait-group.  \<open>stopStep\<close> is one action of a call that stands at \<open>pc\<close>; \<open>runStops\<close>
  runs two calls for the same runtime under a schedule (\<open>False\<close>: the first call takes
  a step, \<open>True\<close>: the second) and collects the panics.
\<close>

datatype StopPC = AtCheck | AtSet | AtDone | Finished

definition stopStep :: "ref \<Rightarrow> StopPC \<Rightarrow> World \<Rightarrow> StopPC \<times> panic option \<times> World" where
  "stopStep from pc w =
    (case pc of
       AtCheck \<Rightarrow> (if State (heap w from) \<noteq> DriverStopped then AtSet else Finished, None, w)
     | AtSet \<Rightarrow> (AtDone, None, setRuntime from ((heap w from)\<lparr>State := DriverStopped\<rparr>) w)
     | AtDone \<Rightarrow>
         (case Services w (Service (heap w from)) of
            None \<Rightarrow> (Finished, Some NilDereference, w)
          | Some s \<Rightarrow>
              (case drainingGroup s of
                 None \<Rightarrow> (Finished, Some NilDereference, w)
               | Some c \<Rightarrow>
                   if c - 1 < 0 then (Finished, Some NegativeWaitGroup, w)
                   else (Finished, None,
                         setService (Service (heap w from)) (s\<lparr>drainingGroup := Some (c - 1)\<rparr>) w)))
     | Finished \<Rightarrow> (Finished, None, w))"

fun runStops ::
  "ref \<Rightarrow> bool list \<Rightarrow> StopPC \<times> StopPC \<times> World \<times> panic list
     \<Rightarrow> StopPC \<times> StopPC \<times> World \<times> panic list" where
  "runStops from [] c = c"
| "runStops from (second # sched) (pc1, pc2, w, ps) =
    (if second then
       (case stopStep from pc2 w of
          (pc2', p, w') \<Rightarrow>
            runStops from sched (pc1, pc2', w', ps @ (case p of None \<Rightarrow> [] | Some x \<Rightarrow> [x])))
     else
       (case stopStep from pc1 w of
          (pc1', p, w') \<Rightarrow>
            runStops from sched (pc1', pc2, w', ps @ (case p of None \<Rightarrow> [] | Some x \<Rightarrow> [x]))))"

text \<open>
  \<open>Drain\<close>.  The message it sends is \<open>&dipper.Message{Channel: "command", Subject:
  "stop"}\<close>, every other field zero.
\<close>

definition stopMessage :: LMessage where
  "stopMessage = \<lparr>Channel = ''command'', Subject = ''stop'', Size = 0, IsRaw = False,
                  Payload = PNil, Labels = None\<rparr>"

definition draining :: "World \<Rightarrow> string \<times> ref \<Rightarrow> bool" where
  "draining w d = (State (heap w (snd d)) \<noteq> DriverFailed \<and> State (heap w (snd d)) \<noteq> DriverStopped)"

definition Drain :: "string \<Rightarrow> Service \<Rightarrow> World \<Rightarrow> World" where
  "Drain sn s w =
    (let s1 = s\<lparr>healthy := False\<rparr>;
         cnt = length (filter (draining w) (driverRuntimes s1));
         (s2, w2) =
           (if 0 < cnt then
              (s1\<lparr>drainingGroup := Some (int cnt)\<rparr>,
               emit (WaitGroupWaitTimeout 1000)
                 (w\<lparr>trace := trace w @
                      map (\<lambda>d. SendMessageTo (snd d) stopMessage)
                        (filter (draining w) (driverRuntimes s1))\<rparr>))
            else (s1, w))
     in emit (AdvanceStage (name s2) StageDrained) (setService sn s2 w2))"

section \<open>Predicates used in the statements\<close>

definition ascii :: "char \<Rightarrow> bool" where
  "ascii c = ((of_char c :: nat) < 128)"

definition blank :: "char \<Rightarrow> bool" where
  "blank c = isSpace (of_char c)"

definition is_digit :: "char \<Rightarrow> bool" where
  "is_digit c = (48 \<le> (of_char c :: nat) \<and> (of_char c :: nat) \<le> 57)"

fun dval :: "nat \<Rightarrow> string \<Rightarrow> nat" where
  "dval a [] = a"
| "dval a (c # cs) = dval (a * 10 + (of_char c - 48)) cs"

definition word :: "string \<Rightarrow> bool" where
  "word w = (w \<noteq> [] \<and> (\<forall>c \<in> set w. ascii c \<and> \<not> blank c))"

text \<open>
  The runtime that \<open>loadFeature\<close> proposes for a feature: what \<open>driver.NewDriver\<close> is
  given, read from the staged configuration of the service.
\<close>

definition proposed :: "Service \<Rightarrow> string \<Rightarrow> string \<Rightarrow> jval \<Rightarrow> Runtime" where
  "proposed s feature driverName driverMeta =
    \<lparr>Feature = feature, Service = [], Meta = driverMeta,
     Data = (case GetStagedDriverData (config s) driverName of None \<Rightarrow> JNull | Some d \<Rightarrow> d),
     DynamicData = (if HasPrefix feature ''driver:''
                    then (case dynamicFeatureData s feature of None \<Rightarrow> JNull | Some d \<Rightarrow> d)
                    else JNull),
     State = DriverLoading\<rparr>"

definition isAdvanceStage :: "Event \<Rightarrow> bool" where
  "isAdvanceStage e = (case e of AdvanceStage sn st \<Rightarrow> True | _ \<Rightarrow> False)"

text \<open>
  A concrete process for the examples: the service \<open>engine\<close> with one runtime, at
  pointer 0, for the feature \<open>eventbus\<close>, mapped to the driver \<open>redisqueue\<close>; the data
  of the runtime and its state vary.
\<close>

definition cfg0 :: Config where
  "cfg0 = \<lparr>GetStagedDriverDataStr =
             (\<lambda>p. if p = ''daemon.featureMap.global.eventbus'' then Some ''redisqueue'' else None),
           GetStagedDriverData =
             (\<lambda>p. if p = ''daemon.drivers.redisqueue'' then Some (JObj [(''name'', JStr ''redisqueue'')])
                  else if p = ''redisqueue'' then Some (JObj [(''topic'', JStr ''new'')])
                  else None)\<rparr>"

definition svc0 :: Service where
  "svc0 = \<lparr>name = ''engine'', config = cfg0, driverRuntimes = [(''eventbus'', 0)],
           expects = Map.empty, responders = Map.empty, dynamicFeatureData = Map.empty,
           healthy = True, drainingGroup = None\<rparr>"

definition rt0 :: "jval \<Rightarrow> DriverState \<Rightarrow> Runtime" where
  "rt0 d st = \<lparr>Feature = ''eventbus'', Service = ''engine'',
              Meta = JObj [(''name'', JStr ''redisqueue'')], Data = d, DynamicData = JNull,
              State = st\<rparr>"

definition world0 :: "jval \<Rightarrow> DriverState \<Rightarrow> World" where
  "world0 d st = \<lparr>heap = (\<lambda>r. rt0 d st), nextRef = 1, Services = [''engine'' \<mapsto> svc0],
                 Emitters = {}, trace = []\<rparr>"

text \<open>The same process while the service drains, with a wait-group of the given count.\<close>

definition drainingWorld :: "int \<Rightarrow> World" where
  "drainingWorld c = setService ''engine'' (svc0\<lparr>drainingGroup := Some c\<rparr>) (world0 JNull DriverAlive)"

section \<open>Lemmas on the scanner\<close>

lemma ReadRune_ascii: "ascii c \<Longrightarrow> ReadRune (c # bs) = Some (of_char c, bs)"
  by (simp add: ReadRune_def ascii_def Let_def)

lemma AppendRune_ascii: "ascii c \<Longrightarrow> AppendRune (of_char c) = [c]"
  by (simp add: AppendRune_def ascii_def)

lemma SkipSpace_word: "ascii c \<Longrightarrow> \<not> blank c \<Longrightarrow> SkipSpace (c # bs) = Inr (c # bs)"
  by (subst SkipSpace.simps) (auto simp: ReadRune_ascii blank_def isSpace_def)

lemma SkipSpace_sp: "SkipSpace (CHR '' '' # bs) = SkipSpace bs"
  by (subst SkipSpace.simps) (simp add: ReadRune_ascii ascii_def isSpace_def)

lemma sp_blank: "ascii (CHR '' '')" "blank (CHR '' '')" "ascii (CHR 0x0A)" "blank (CHR 0x0A)"
  by (simp_all add: ascii_def blank_def isSpace_def)

lemma token_word:
  assumes "\<forall>c \<in> set w. ascii c \<and> \<not> blank c" and "ascii t" "blank t"
  shows "token buf (w @ t # rest) = (buf @ w, t # rest)"
  using assms(1)
proof (induction w arbitrary: buf)
  case Nil
  show ?case using assms(2,3) by (subst token.simps) (simp add: ReadRune_ascii blank_def)
next
  case (Cons c w)
  then have c: "ascii c" "\<not> blank c" and w: "\<forall>c \<in> set w. ascii c \<and> \<not> blank c" by auto
  have "token buf ((c # w) @ t # rest) = token (buf @ [c]) (w @ t # rest)"
    using c by (subst token.simps) (simp add: ReadRune_ascii AppendRune_ascii blank_def)
  then show ?case using Cons.IH [OF w] by simp
qed

lemma convertString_word:
  assumes "w \<noteq> []" "\<forall>c \<in> set w. ascii c \<and> \<not> blank c" and "ascii t" "blank t"
  shows "convertString (w @ t # rest) = Inr (w, t # rest)"
proof -
  obtain c w' where w: "w = c # w'" using assms(1) by (cases w) auto
  then have c: "ascii c" "\<not> blank c" using assms(2) by auto
  have "SkipSpace (w @ t # rest) = Inr (w @ t # rest)"
    using SkipSpace_word [OF c] by (simp add: w)
  then show ?thesis
    using token_word [OF assms(2,3,4), of "[]" rest] by (simp add: convertString_def notEOF_def w)
qed

lemma is_digit_ascii: "is_digit c \<Longrightarrow> ascii c"
  by (simp add: is_digit_def ascii_def)

lemma itoa_digits: "\<forall>c \<in> set (itoa n). is_digit c"
proof (induction n rule: itoa.induct)
  case (1 n)
  show ?case
  proof (cases "n < 10")
    case True
    then show ?thesis by (subst itoa.simps) (simp add: is_digit_def)
  next
    case False
    have "n mod 10 < 10" by simp
    then have "is_digit (char_of (48 + n mod 10))" by (simp add: is_digit_def)
    then show ?thesis using False 1 by (subst itoa.simps) auto
  qed
qed

lemma itoa_nonempty: "itoa n \<noteq> []"
  by (subst itoa.simps) simp

lemma itoa_hd: "0 < n \<Longrightarrow> (of_char (hd (itoa n)) :: nat) \<noteq> 48"
proof (induction n rule: itoa.induct)
  case (1 n)
  show ?case
  proof (cases "n < 10")
    case True
    then show ?thesis using 1(2) by (subst itoa.simps) simp
  next
    case False
    then have "0 < n div 10" by simp
    then have "(of_char (hd (itoa (n div 10))) :: nat) \<noteq> 48" using 1(1) False by simp
    then show ?thesis using False by (subst itoa.simps) (simp add: itoa_nonempty)
  qed
qed

lemma dval_mono: "a \<le> dval a cs"
proof (induction cs arbitrary: a)
  case Nil show ?case by simp
next
  case (Cons c cs)
  have "a \<le> a * 10 + (of_char c - 48)" by simp
  also have "\<dots> \<le> dval (a * 10 + (of_char c - 48)) cs" by (rule Cons.IH)
  finally show ?case by simp
qed

lemma dval_append: "dval a (cs @ ds) = dval (dval a cs) ds"
  by (induction cs arbitrary: a) simp_all

lemma dval_itoa: "dval 0 (itoa n) = n"
proof (induction n rule: itoa.induct)
  case (1 n)
  show ?case
  proof (cases "n < 10")
    case True
    then show ?thesis by (subst itoa.simps) simp
  next
    case False
    have "n mod 10 < 10" by simp
    then have "((48 + n mod 10) mod 256) = 48 + n mod 10" by simp
    then show ?thesis using False 1 by (subst itoa.simps) (simp add: dval_append)
  qed
qed

lemma ParseUint_digits_dec:
  "\<forall>c \<in> set ds. is_digit c \<Longrightarrow> dval a ds < 2 ^ 64 \<Longrightarrow> ParseUint_digits 10 s0 a ds = Inr (dval a ds)"
proof (induction ds arbitrary: a)
  case Nil
  show ?case by simp
next
  case (Cons c cs)
  then have c: "is_digit c" by simp
  let ?d = "(of_char c :: nat) - 48"
  have dv: "digitVal (of_char c) = Some ?d" using c by (simp add: digitVal_def is_digit_def)
  have lt: "?d < 10" using c unfolding is_digit_def by arith
  have "a * 10 + ?d \<le> dval (a * 10 + ?d) cs" by (rule dval_mono)
  then have small: "a * 10 + ?d < 2 ^ 64" using Cons.prems(2) by simp
  then have small': "\<not> (2 ^ 64 \<le> int (a * 10 + ?d))"
    by (metis int_ops(1) linorder_not_less of_nat_less_iff of_nat_numeral of_nat_power)
  have ne: "(of_char c :: nat) \<noteq> 95" using c by (simp add: is_digit_def)
  have "ParseUint_digits 10 s0 a (c # cs) = ParseUint_digits 10 s0 (a * 10 + ?d) cs"
    using dv lt small' ne by simp
  then show ?case using Cons.IH [of "a * 10 + ?d"] Cons.prems by simp
qed

lemma ReadRune_LF: "ReadRune (CHR 0x0A # bs) = Some (10, bs)"
  by (simp add: ReadRune_def)

lemma digit_in_decimal: "is_digit c \<Longrightarrow> (of_char c :: nat) \<in> set (decimalDigits @ [95])"
  by (simp add: is_digit_def decimalDigits_def) arith

lemma accept_all_digits:
  assumes "\<forall>c \<in> set ds. is_digit c \<and> (of_char c :: nat) \<in> set ok" and "10 \<notin> set ok"
  shows "accept_all ok buf (ds @ CHR 0x0A # rest) = (buf @ ds, CHR 0x0A # rest)"
  using assms(1)
proof (induction ds arbitrary: buf)
  case Nil
  show ?case using assms(2) by (subst accept_all.simps) (simp add: ReadRune_LF)
next
  case (Cons c cs)
  then have c: "is_digit c" "(of_char c :: nat) \<in> set ok" by auto
  have "accept_all ok buf ((c # cs) @ CHR 0x0A # rest) = accept_all ok (buf @ [c]) (cs @ CHR 0x0A # rest)"
    using c by (subst accept_all.simps) (simp add: ReadRune_ascii AppendRune_ascii is_digit_ascii)
  then show ?case using Cons by simp
qed

lemma ParseInt_itoa:
  assumes "n < 2 ^ 63"
  shows "ParseInt (itoa n) = Inr (int n)"
proof (cases "n = 0")
  case True
  have "itoa 0 = ''0''" by code_simp
  then show ?thesis using True by (simp add: ParseInt_def ParseUint_def has_prefix_char_def)
next
  case False
  let ?s = "itoa n"
  have dig: "\<forall>c \<in> set ?s. is_digit c" by (rule itoa_digits)
  have ne: "?s \<noteq> []" by (rule itoa_nonempty)
  then have hd_in: "hd ?s \<in> set ?s" by simp
  then have hd_dig: "is_digit (hd ?s)" using dig by blast
  have hd_minus: "hd ?s \<noteq> CHR ''-''" "hd ?s \<noteq> CHR ''+''"
    using hd_dig by (auto simp: is_digit_def)
  have hd0: "(of_char (hd ?s) :: nat) \<noteq> 48" using False by (simp add: itoa_hd)
  have no_us: "CHR ''_'' \<notin> set ?s" using dig by (auto simp: is_digit_def)
  have "n < 2 ^ 64" using assms by (simp add: order_less_trans)
  then have pu: "ParseUint_digits 10 ?s 0 ?s = Inr n"
    using ParseUint_digits_dec [OF dig, of 0 ?s] by (simp add: dval_itoa)
  have "ParseUint ?s = Inr n" using ne hd0 pu no_us by (simp add: ParseUint_def)
  moreover have "\<not> (2 ^ 63 \<le> int n)" using assms
    by (metis linorder_not_less of_nat_less_iff of_nat_numeral of_nat_power)
  ultimately show ?thesis using ne hd_minus by (simp add: ParseInt_def)
qed

lemma is_digit_not_blank: "is_digit c \<Longrightarrow> \<not> blank c"
  by (auto simp: is_digit_def blank_def isSpace_def)

lemma scanInt_itoa:
  assumes "n < 2 ^ 63"
  shows "scanInt (CHR '' '' # itoa n @ CHR 0x0A # rest) = Inr (int n, CHR 0x0A # rest)"
proof -
  let ?r = "CHR 0x0A # rest"
  obtain c cs where s: "itoa n = c # cs" using itoa_nonempty [of n] by (cases "itoa n") auto
  have dig: "\<forall>c \<in> set (itoa n). is_digit c" by (rule itoa_digits)
  then have c: "is_digit c" and cs: "\<forall>x \<in> set cs. is_digit x" by (simp_all add: s)
  have skip: "SkipSpace (CHR '' '' # c # cs @ ?r) = Inr (c # cs @ ?r)"
    using SkipSpace_word [OF is_digit_ascii [OF c] is_digit_not_blank [OF c]]
    by (simp add: SkipSpace_sp)
  have sign: "accept [43, 45] [] (c # cs @ ?r) = (False, [], c # cs @ ?r)"
    using c by (auto simp: accept_def ReadRune_ascii is_digit_ascii is_digit_def)
  have tok: "(case scanBasePrefix [] (c # cs @ ?r) of (digits, haveDigits, buf2, bs4) \<Rightarrow>
               scanNumber digits haveDigits buf2 bs4) = Inr (c # cs, ?r)"
  proof (cases "n = 0")
    case True
    have "itoa 0 = ''0''" by code_simp
    then have z: "c = CHR ''0''" "cs = []" using s True by simp_all
    have aa: "accept_all (octalDigits @ [95]) ''0'' ?r = (''0'', ?r)"
      by (subst accept_all.simps) (simp add: ReadRune_LF octalDigits_def)
    have r48: "ReadRune (CHR ''0'' # ?r) = Some (48, ?r)"
      using ReadRune_ascii [of "CHR ''0''" ?r] by (simp add: ascii_def)
    have a48: "AppendRune 48 = ''0''" by code_simp
    show ?thesis
      by (simp add: z scanBasePrefix_def peek_def accept_def r48 ReadRune_LF a48 scanNumber_def aa)
  next
    case False
    then have "(of_char c :: nat) \<noteq> 48" using itoa_hd [of n] by (simp add: s)
    then have pre: "scanBasePrefix [] (c # cs @ ?r) = (decimalDigits @ [95], False, [], c # cs @ ?r)"
      using c by (simp add: scanBasePrefix_def peek_def ReadRune_ascii is_digit_ascii)
    have acc: "accept (decimalDigits @ [95]) [] (c # cs @ ?r) = (True, [c], cs @ ?r)"
      using digit_in_decimal [OF c] c
      by (simp add: accept_def ReadRune_ascii AppendRune_ascii is_digit_ascii)
    have all: "accept_all (decimalDigits @ [95]) [c] (cs @ ?r) = ([c] @ cs, ?r)"
    proof (rule accept_all_digits)
      show "\<forall>x \<in> set cs. is_digit x \<and> (of_char x :: nat) \<in> set (decimalDigits @ [95])"
        using cs digit_in_decimal by blast
      show "10 \<notin> set (decimalDigits @ [95])" by (simp add: decimalDigits_def)
    qed
    show ?thesis by (simp add: pre scanNumber_def notEOF_def acc all)
  qed
  have pi: "ParseInt (c # cs) = Inr (int n)" using ParseInt_itoa [OF assms] by (simp add: s)
  obtain dg hv b2 b4 where sp: "scanBasePrefix [] (c # cs @ ?r) = (dg, hv, b2, b4)"
    by (cases "scanBasePrefix [] (c # cs @ ?r)") auto
  with tok have sn: "scanNumber dg hv b2 b4 = Inr (c # cs, ?r)" by simp
  show ?thesis
    by (simp add: scanInt_def s skip notEOF_def sign sp sn pi)
qed

lemma expectNewline_LF: "expectNewline (CHR 0x0A # rest) = Inr rest"
  by (subst expectNewline.simps) (simp add: ReadRune_LF)

lemma Fscanln_header:
  assumes "word channel" "word subject" "n < 2 ^ 63"
  shows "Fscanln (channel @ '' '' @ subject @ '' '' @ itoa n @ [CHR 0x0A] @ rest)
           = Inr ((channel, subject, int n), rest)"
proof -
  have c: "convertString (channel @ CHR '' '' # (subject @ CHR '' '' # itoa n @ CHR 0x0A # rest))
             = Inr (channel, CHR '' '' # (subject @ CHR '' '' # itoa n @ CHR 0x0A # rest))"
    using assms(1) by (intro convertString_word) (simp_all add: word_def sp_blank)
  obtain d ds where sub: "subject = d # ds" using assms(2) by (cases subject) (auto simp: word_def)
  then have d: "ascii d" "\<not> blank d" using assms(2) by (auto simp: word_def)
  have sk: "SkipSpace (CHR '' '' # subject @ CHR '' '' # itoa n @ CHR 0x0A # rest)
              = Inr (subject @ CHR '' '' # itoa n @ CHR 0x0A # rest)"
    using SkipSpace_word [OF d] by (simp add: SkipSpace_sp sub)
  have tk: "token [] (subject @ CHR '' '' # itoa n @ CHR 0x0A # rest)
              = (subject, CHR '' '' # itoa n @ CHR 0x0A # rest)"
    using token_word [of subject "CHR '' ''" "[]"] assms(2) by (simp add: word_def sp_blank)
  have sk2: "SkipSpace (subject @ CHR '' '' # itoa n @ CHR 0x0A # rest)
              = Inr (subject @ CHR '' '' # itoa n @ CHR 0x0A # rest)"
    using SkipSpace_word [OF d] by (simp add: sub)
  have s: "convertString (CHR '' '' # subject @ CHR '' '' # itoa n @ CHR 0x0A # rest)
             = Inr (subject, CHR '' '' # itoa n @ CHR 0x0A # rest)"
    by (simp add: convertString_def sk notEOF_def sk2 tk)
  show ?thesis
    using c s scanInt_itoa [OF assms(3), of rest] by (simp add: Fscanln_def expectNewline_LF)
qed

lemma FetchRawMessage_header:
  assumes "word channel" "word subject" "n < 2 ^ 63"
  shows "FetchRawMessage (channel @ '' '' @ subject @ '' '' @ itoa n @ [CHR 0x0A] @ rest) =
    (if 0 < n then
       (case ReadFull n rest of
          Inl err \<Rightarrow> Inl (PanicError err)
        | Inr (buf, rest') \<Rightarrow>
            Inr (\<lparr>Channel = channel, Subject = subject, Size = int n, IsRaw = True,
                  Payload = PBytes buf\<rparr>, rest'))
     else Inr (\<lparr>Channel = channel, Subject = subject, Size = int n, IsRaw = True,
                Payload = PNil\<rparr>, rest))"
  using Fscanln_header [OF assms, of rest]
  by (simp add: FetchRawMessage_def split: sum.splits prod.splits)

lemmas scan_eval = FetchRawMessage_def Fscanln_def convertString_def scanInt_def notEOF_def
  SkipSpace.simps token.simps accept_all.simps expectNewline.simps ReadRune_def peek_def accept_def
  scanBasePrefix_def scanNumber_def ParseInt_def ParseUint_def has_prefix_char_def isSpace_def
  AppendRune_def RuneError_def Let_def decimalDigits_def octalDigits_def binaryDigits_def
  hexadecimalDigits_def digitVal_def lower_def ReadFull_def char_of_def bit_Suc_0_iff




section \<open>Properties of dipper/comm.go\<close>

text \<open>
  C1 (amended).  Let \<open>channel\<close> and \<open>subject\<close> be non-empty strings of ASCII characters
  none of which is white space, let the payload be shorter than \<open>2 ^ 63\<close> bytes (a Go
  \<open>int\<close>) and let the writer's lock be free.  Then \<open>SendRawMessage\<close> returns, having
  appended to the writer exactly the header \<open>channel SP subject SP len(payload) LF\<close>
  followed by the payload bytes and nothing else (the lock is registered and released),
  and \<open>FetchRawMessage\<close> on those bytes, whatever follows them, returns the same channel
  and subject, \<open>Size = len(payload)\<close>, \<open>IsRaw\<close> set, the same payload bytes (the nil
  payload when there are none) and the input that follows.
\<close>

theorem codec_roundtrip_ascii:
  assumes "word channel" and "word subject" and "length payload < 2 ^ 63"
    and "CommLocks st out \<noteq> Some True"
  shows "SendRawMessage out channel subject payload st =
      Returns (st\<lparr>CommLocks := (CommLocks st)(out \<mapsto> False),
                  written := (written st)(out := written st out @
                    channel @ '' '' @ subject @ '' '' @ itoa (length payload) @ [CHR 0x0A] @ payload)\<rparr>)
    \<and> FetchRawMessage
        (channel @ '' '' @ subject @ '' '' @ itoa (length payload) @ [CHR 0x0A] @ payload @ rest) =
      Inr (\<lparr>Channel = channel, Subject = subject, Size = int (length payload), IsRaw = True,
            Payload = (if payload = [] then PNil else PBytes payload)\<rparr>, rest)"
proof
  show "SendRawMessage out channel subject payload st =
      Returns (st\<lparr>CommLocks := (CommLocks st)(out \<mapsto> False),
                  written := (written st)(out := written st out @
                    channel @ '' '' @ subject @ '' '' @ itoa (length payload) @ [CHR 0x0A] @ payload)\<rparr>)"
    using assms(4)
    by (cases "CommLocks st out")
       (auto simp: SendRawMessage_def LockComm_def UnlockComm_def Write_def Let_def)
  show "FetchRawMessage
        (channel @ '' '' @ subject @ '' '' @ itoa (length payload) @ [CHR 0x0A] @ payload @ rest) =
      Inr (\<lparr>Channel = channel, Subject = subject, Size = int (length payload), IsRaw = True,
            Payload = (if payload = [] then PNil else PBytes payload)\<rparr>, rest)"
    using FetchRawMessage_header [OF assms(1,2,3), of "payload @ rest"]
    by (simp add: ReadFull_def)
qed

theorem codec_roundtrip_witness:
  "SendRawMessage 1 ''rpc'' ''call'' ''{}'' \<lparr>CommLocks = Map.empty, written = (\<lambda>w. [])\<rparr> =
     Returns \<lparr>CommLocks = [1 \<mapsto> False],
              written = (\<lambda>w. [])(1 := ''rpc call 2'' @ [CHR 0x0A] @ ''{}'')\<rparr>
   \<and> FetchRawMessage (''rpc call 2'' @ [CHR 0x0A] @ ''{}'') =
     Inr (\<lparr>Channel = ''rpc'', Subject = ''call'', Size = 2, IsRaw = True,
           Payload = PBytes ''{}''\<rparr>, [])"
proof -
  have w1: "word ''rpc''" and w2: "word ''call''"
    by (simp_all add: word_def ascii_def blank_def isSpace_def)
  have len: "length ''{}'' < (2::nat) ^ 63" by simp
  have free: "CommLocks \<lparr>CommLocks = Map.empty, written = (\<lambda>w. [])\<rparr> (1::nat) \<noteq> Some True" by simp
  have i2: "itoa (Suc (Suc 0)) = ''2''" by code_simp
  from codec_roundtrip_ascii [OF w1 w2 len free, of "[]"]
  show ?thesis by (simp add: i2)
qed

text \<open>
  C1 as stated fails for a channel that is not valid UTF-8: the scanner reads runes, so
  the byte \<open>0xFF\<close> (not white space) comes back as the three bytes of U+FFFD.
\<close>

theorem codec_roundtrip_invalid_utf8_counterexample:
  "\<not> blank (CHR 0xFF) \<and> \<not> blank (CHR ''s'')
   \<and> SendRawMessage 1 [CHR 0xFF] ''s'' [] \<lparr>CommLocks = Map.empty, written = (\<lambda>w. [])\<rparr> =
     Returns \<lparr>CommLocks = [1 \<mapsto> False],
              written = (\<lambda>w. [])(1 := [CHR 0xFF] @ '' s 0'' @ [CHR 0x0A])\<rparr>
   \<and> FetchRawMessage ([CHR 0xFF] @ '' s 0'' @ [CHR 0x0A]) =
     Inr (\<lparr>Channel = [CHR 0xEF, CHR 0xBF, CHR 0xBD], Subject = ''s'', Size = 0, IsRaw = True,
           Payload = PNil\<rparr>, [])
   \<and> [CHR 0xEF, CHR 0xBF, CHR 0xBD] \<noteq> [CHR 0xFF]"
proof -
  have b: "\<not> blank (CHR 0xFF) \<and> \<not> blank (CHR ''s'')" by (simp add: blank_def isSpace_def)
  have i0: "itoa 0 = ''0''" by code_simp
  have s: "SendRawMessage 1 [CHR 0xFF] ''s'' [] \<lparr>CommLocks = Map.empty, written = (\<lambda>w. [])\<rparr> =
     Returns \<lparr>CommLocks = [1 \<mapsto> False],
              written = (\<lambda>w. [])(1 := [CHR 0xFF] @ '' s 0'' @ [CHR 0x0A])\<rparr>"
    by (simp add: SendRawMessage_def LockComm_def UnlockComm_def Write_def i0)
  have f: "FetchRawMessage ([CHR 0xFF] @ '' s 0'' @ [CHR 0x0A]) =
     Inr (\<lparr>Channel = [CHR 0xEF, CHR 0xBF, CHR 0xBD], Subject = ''s'', Size = 0, IsRaw = True,
           Payload = PNil\<rparr>, [])"
    by (simp add: scan_eval)
  show ?thesis using b s f by simp
qed




lemma DeserializeContent_not_bytes:
  "DeserializeContent unmarshal content = Inr v \<Longrightarrow> v \<noteq> PBytes b"
  by (auto simp: DeserializeContent_def split: if_splits option.splits)

text \<open>
  C2.  \<open>DeserializePayload\<close> replaces the raw bytes of a raw message by the decoded
  structure but leaves \<open>IsRaw\<close> set: whenever a first application to a raw message
  returns, the message it returns is still marked raw, and a second application panics
  on the type assertion \<open>msg.Payload.([]byte)\<close> instead of being a no-op.
\<close>

theorem DeserializePayload_second_application_panics:
  assumes "IsRaw msg" and "DeserializePayload unmarshal msg = Inr msg'"
  shows "IsRaw msg' \<and> DeserializePayload unmarshal msg' = Inl InterfaceConversion"
proof -
  from assms obtain b v where b: "Payload msg = PBytes b"
    and v: "DeserializeContent unmarshal b = Inr v" and m: "msg' = msg\<lparr>Payload := v\<rparr>"
    by (auto simp: DeserializePayload_def split: payload.splits sum.splits)
  have raw: "IsRaw msg'" using assms(1) m by simp
  have "\<forall>x. v \<noteq> PBytes x" using v by (auto dest: DeserializeContent_not_bytes)
  then have "DeserializePayload unmarshal msg' = Inl InterfaceConversion"
    using raw m by (cases v) (simp_all add: DeserializePayload_def)
  with raw show ?thesis by simp
qed

theorem DeserializePayload_second_application_witness:
  "DeserializePayload (\<lambda>b. Some (JObj []))
      \<lparr>Channel = ''rpc'', Subject = ''call'', Size = 2, IsRaw = True, Payload = PBytes ''{}''\<rparr>
    = Inr \<lparr>Channel = ''rpc'', Subject = ''call'', Size = 2, IsRaw = True, Payload = PValue (JObj [])\<rparr>
   \<and> DeserializePayload (\<lambda>b. Some (JObj []))
      \<lparr>Channel = ''rpc'', Subject = ''call'', Size = 2, IsRaw = True, Payload = PValue (JObj [])\<rparr>
    = Inl InterfaceConversion"
proof -
  let ?u = "\<lambda>b :: string. Some (JObj [])"
  let ?m = "\<lparr>Channel = ''rpc'', Subject = ''call'', Size = 2, IsRaw = True, Payload = PBytes ''{}''\<rparr>"
  let ?m' = "\<lparr>Channel = ''rpc'', Subject = ''call'', Size = 2, IsRaw = True, Payload = PValue (JObj [])\<rparr>"
  have raw: "IsRaw ?m" by simp
  have first: "DeserializePayload ?u ?m = Inr ?m'"
    by (simp add: DeserializePayload_def DeserializeContent_def)
  from DeserializePayload_second_application_panics [OF raw first] first
  show ?thesis by simp
qed

text \<open>
  C10.  The registry of stream locks is asymmetric.  \<open>LockComm\<close> on a writer with no
  registered lock creates the lock, registers it and returns holding it, and \<open>LockComm\<close>
  never panics; \<open>UnlockComm\<close> on a writer with no registered lock panics with
  \<open>comm lock not found\<close>, in particular after \<open>RemoveComm\<close>; \<open>RemoveComm\<close> is
  idempotent, and changes nothing when no lock is registered.
\<close>

theorem comm_lock_registry_asymmetric:
  "(CommLocks st out = None \<longrightarrow>
      LockComm out st = Returns (st\<lparr>CommLocks := (CommLocks st)(out \<mapsto> True)\<rparr>))
   \<and> (\<forall>p. LockComm out st \<noteq> Panics p)
   \<and> (CommLocks st out = None \<longrightarrow> UnlockComm out st = Panics (PanicString ''comm lock not found''))
   \<and> UnlockComm out (RemoveComm out st) = Panics (PanicString ''comm lock not found'')
   \<and> RemoveComm out (RemoveComm out st) = RemoveComm out st
   \<and> (CommLocks st out = None \<longrightarrow> RemoveComm out st = st)"
  by (auto simp: LockComm_def UnlockComm_def RemoveComm_def split: option.splits)

theorem comm_lock_registry_witness:
  "LockComm 1 \<lparr>CommLocks = Map.empty, written = (\<lambda>w. [])\<rparr>
     = Returns \<lparr>CommLocks = [1 \<mapsto> True], written = (\<lambda>w. [])\<rparr>
   \<and> UnlockComm 1 \<lparr>CommLocks = Map.empty, written = (\<lambda>w. [])\<rparr>
     = Panics (PanicString ''comm lock not found'')
   \<and> RemoveComm 1 \<lparr>CommLocks = Map.empty, written = (\<lambda>w. [])\<rparr>
     = \<lparr>CommLocks = Map.empty, written = (\<lambda>w. [])\<rparr>"
  using comm_lock_registry_asymmetric [of "\<lparr>CommLocks = Map.empty, written = (\<lambda>w. [])\<rparr>" 1]
  by simp

section \<open>Properties of internal/service/service.go\<close>

lemma slot_after_set:
  "getDriverRuntime (setDriverRuntime f r s) f = Some r"
  "getDriverRuntime (checkDeleteDriverRuntime f None (setDriverRuntime f r s)) f = Some r"
  by (simp_all add: getDriverRuntime_def setDriverRuntime_def checkDeleteDriverRuntime_def
      LockGetMap_def LockSetMap_def LockCheckDeleteMap_def update_conv')

lemma loadFeature_body_eq:
  assumes "Services w sn = Some s" and "resolveDriverName s F = Some dn"
    and "GetStagedDriverData (config s) (''daemon.drivers.'' @ dn) = Some (JObj meta)"
  shows "loadFeature_body sn F w =
    (let new = proposed s F dn (JObj meta);
         w1 = w\<lparr>heap := (heap w)(nextRef w := new), nextRef := Suc (nextRef w)\<rparr>;
         old = getDriverRuntime s F
     in case (if (case old of None \<Rightarrow> False | Some q \<Rightarrow> State (heap w1 q) \<noteq> DriverFailed)
                \<and> (case old of None \<Rightarrow> False | Some q \<Rightarrow> Meta (heap w1 q) = Meta (heap w1 (nextRef w)))
              then old else None) of
          Some q \<Rightarrow>
            if Data (heap w1 q) = Data (heap w1 (nextRef w))
               \<and> DynamicData (heap w1 q) = DynamicData (heap w1 (nextRef w))
            then Inr (False, dn, w1)
            else Inr (True, dn, hotReload (nextRef w) q w1)
        | None \<Rightarrow> Inr (True, dn, coldReload sn s (nextRef w) old w1))"
  using assms by (simp add: loadFeature_body_def NewDriver_def proposed_def Let_def)

text \<open>
  C3.  Let the driver of feature \<open>F\<close> resolve to \<open>dn\<close> with a descriptor in the staged
  configuration, and let the runtime in slot \<open>F\<close>, if any, be an object allocated
  before the call.  If there is no old runtime, or its state is Failed, or its
  descriptor differs from the new one, \<open>loadFeature\<close> performs a cold reload: it reports
  the feature affected, the new runtime object is started for the service and slot \<open>F\<close>
  holds it, an object other than the old one.  If the old runtime is not Failed and the
  descriptor is unchanged but the data or the dynamic data differ, it performs a hot
  reload: affected, the slot as before, the old object updated and sent its options.  If
  the old runtime is not Failed and descriptor, data and dynamic data are all unchanged,
  nothing is done (services, trace and emitters as before, every object as before) and
  the feature is reported not affected.
\<close>

theorem loadFeature_decision:
  assumes S: "Services w sn = Some s" and R: "resolveDriverName s F = Some dn"
    and M: "GetStagedDriverData (config s) (''daemon.drivers.'' @ dn) = Some (JObj meta)"
    and WF: "\<forall>q. getDriverRuntime s F = Some q \<longrightarrow> q < nextRef w"
  shows
   "((getDriverRuntime s F = None
       \<or> (\<exists>q. getDriverRuntime s F = Some q
              \<and> (State (heap w q) = DriverFailed \<or> Meta (heap w q) \<noteq> JObj meta))) \<longrightarrow>
       fst (loadFeature sn F w) = (True, dn, None)
       \<and> (\<exists>s'. Services (snd (loadFeature sn F w)) sn = Some s'
               \<and> getDriverRuntime s' F = Some (nextRef w))
       \<and> getDriverRuntime s F \<noteq> Some (nextRef w)
       \<and> heap (snd (loadFeature sn F w)) (nextRef w) = (proposed s F dn (JObj meta))\<lparr>Service := name s\<rparr>
       \<and> Start (nextRef w) (name s) \<in> set (trace (snd (loadFeature sn F w))))
    \<and> (\<forall>q. getDriverRuntime s F = Some q \<and> State (heap w q) \<noteq> DriverFailed
          \<and> Meta (heap w q) = JObj meta
          \<and> (Data (heap w q) \<noteq> Data (proposed s F dn (JObj meta))
             \<or> DynamicData (heap w q) \<noteq> DynamicData (proposed s F dn (JObj meta))) \<longrightarrow>
       fst (loadFeature sn F w) = (True, dn, None)
       \<and> Services (snd (loadFeature sn F w)) = Services w
       \<and> heap (snd (loadFeature sn F w)) q =
           (heap w q)\<lparr>Data := Data (proposed s F dn (JObj meta)),
                      DynamicData := DynamicData (proposed s F dn (JObj meta)),
                      State := DriverReloading\<rparr>
       \<and> trace (snd (loadFeature sn F w)) = trace w @ [SendOptions q])
    \<and> (\<forall>q. getDriverRuntime s F = Some q \<and> State (heap w q) \<noteq> DriverFailed
          \<and> Meta (heap w q) = JObj meta
          \<and> Data (heap w q) = Data (proposed s F dn (JObj meta))
          \<and> DynamicData (heap w q) = DynamicData (proposed s F dn (JObj meta)) \<longrightarrow>
       fst (loadFeature sn F w) = (False, dn, None)
       \<and> Services (snd (loadFeature sn F w)) = Services w
       \<and> trace (snd (loadFeature sn F w)) = trace w
       \<and> Emitters (snd (loadFeature sn F w)) = Emitters w
       \<and> heap (snd (loadFeature sn F w)) = (heap w)(nextRef w := proposed s F dn (JObj meta)))"
proof -
  let ?new = "proposed s F dn (JObj meta)"
  let ?w1 = "w\<lparr>heap := (heap w)(nextRef w := ?new), nextRef := Suc (nextRef w)\<rparr>"
  note body = loadFeature_body_eq [OF S R M]
  have meta: "Meta ?new = JObj meta" by (simp add: proposed_def)
  have feat: "Feature (proposed s f dn (JObj meta)) = f" for f by (simp add: proposed_def)
  have cold: "fst (loadFeature sn F w) = (True, dn, None)
       \<and> (\<exists>s'. Services (snd (loadFeature sn F w)) sn = Some s'
               \<and> getDriverRuntime s' F = Some (nextRef w))
       \<and> getDriverRuntime s F \<noteq> Some (nextRef w)
       \<and> heap (snd (loadFeature sn F w)) (nextRef w) = ?new\<lparr>Service := name s\<rparr>
       \<and> Start (nextRef w) (name s) \<in> set (trace (snd (loadFeature sn F w)))"
    if c: "getDriverRuntime s F = None
       \<or> (\<exists>q. getDriverRuntime s F = Some q
              \<and> (State (heap w q) = DriverFailed \<or> Meta (heap w q) \<noteq> JObj meta))"
  proof -
    have ne: "getDriverRuntime s F \<noteq> Some (nextRef w)" using WF by auto
    have b: "loadFeature_body sn F w = Inr (True, dn, coldReload sn s (nextRef w) (getDriverRuntime s F) ?w1)"
    proof (cases "getDriverRuntime s F")
      case None
      then show ?thesis by (simp add: body Let_def)
    next
      case (Some q)
      then have "q \<noteq> nextRef w" using WF by auto
      then show ?thesis using c Some by (auto simp: body Let_def meta)
    qed
    show ?thesis
      using ne
      by (cases "getDriverRuntime s F")
         (simp_all add: loadFeature_def b coldReload_def StartRuntime_def setRuntime_def emit_def
           setService_def Let_def feat slot_after_set)
  qed
  have hot: "fst (loadFeature sn F w) = (True, dn, None)
       \<and> Services (snd (loadFeature sn F w)) = Services w
       \<and> heap (snd (loadFeature sn F w)) q =
           (heap w q)\<lparr>Data := Data ?new, DynamicData := DynamicData ?new, State := DriverReloading\<rparr>
       \<and> trace (snd (loadFeature sn F w)) = trace w @ [SendOptions q]"
    if h: "getDriverRuntime s F = Some q \<and> State (heap w q) \<noteq> DriverFailed
          \<and> Meta (heap w q) = JObj meta
          \<and> (Data (heap w q) \<noteq> Data ?new \<or> DynamicData (heap w q) \<noteq> DynamicData ?new)" for q
  proof -
    from h WF have ne: "q \<noteq> nextRef w" by auto
    have b: "loadFeature_body sn F w = Inr (True, dn, hotReload (nextRef w) q ?w1)"
      using h ne by (auto simp: body Let_def meta)
    show ?thesis using ne
      by (simp add: loadFeature_def b hotReload_def setRuntime_def emit_def Let_def)
  qed
  have noop: "fst (loadFeature sn F w) = (False, dn, None)
       \<and> Services (snd (loadFeature sn F w)) = Services w
       \<and> trace (snd (loadFeature sn F w)) = trace w
       \<and> Emitters (snd (loadFeature sn F w)) = Emitters w
       \<and> heap (snd (loadFeature sn F w)) = (heap w)(nextRef w := ?new)"
    if h: "getDriverRuntime s F = Some q \<and> State (heap w q) \<noteq> DriverFailed
          \<and> Meta (heap w q) = JObj meta
          \<and> Data (heap w q) = Data ?new \<and> DynamicData (heap w q) = DynamicData ?new" for q
  proof -
    from h WF have ne: "q \<noteq> nextRef w" by auto
    have b: "loadFeature_body sn F w = Inr (False, dn, ?w1)"
      using h ne by (auto simp: body Let_def meta)
    show ?thesis by (simp add: loadFeature_def b)
  qed
  show ?thesis using cold hot noop by blast
qed

theorem loadFeature_decision_witness:
  "fst (loadFeature ''engine'' ''eventbus'' (world0 JNull DriverFailed)) = (True, ''redisqueue'', None)
   \<and> (\<exists>s'. Services (snd (loadFeature ''engine'' ''eventbus'' (world0 JNull DriverFailed))) ''engine''
              = Some s'
            \<and> getDriverRuntime s' ''eventbus'' = Some 1)
   \<and> Start 1 ''engine'' \<in> set (trace (snd (loadFeature ''engine'' ''eventbus'' (world0 JNull DriverFailed))))
   \<and> fst (loadFeature ''engine'' ''eventbus'' (world0 (JObj [(''topic'', JStr ''old'')]) DriverAlive))
       = (True, ''redisqueue'', None)
   \<and> trace (snd (loadFeature ''engine'' ''eventbus'' (world0 (JObj [(''topic'', JStr ''old'')]) DriverAlive)))
       = [SendOptions 0]
   \<and> Services (snd (loadFeature ''engine'' ''eventbus'' (world0 (JObj [(''topic'', JStr ''old'')]) DriverAlive)))
       = [''engine'' \<mapsto> svc0]
   \<and> fst (loadFeature ''engine'' ''eventbus'' (world0 (JObj [(''topic'', JStr ''new'')]) DriverAlive))
       = (False, ''redisqueue'', None)
   \<and> trace (snd (loadFeature ''engine'' ''eventbus'' (world0 (JObj [(''topic'', JStr ''new'')]) DriverAlive)))
       = []"
proof -
  let ?meta = "[(''name'', JStr ''redisqueue'')]"
  have S: "Services (world0 d st) ''engine'' = Some svc0" for d st by (simp add: world0_def)
  have R: "resolveDriverName svc0 ''eventbus'' = Some ''redisqueue''"
    by (simp add: resolveDriverName_def HasPrefix_def svc0_def cfg0_def)
  have M: "GetStagedDriverData (config svc0) (''daemon.drivers.'' @ ''redisqueue'') = Some (JObj ?meta)"
    by (simp add: svc0_def cfg0_def)
  have G: "getDriverRuntime svc0 ''eventbus'' = Some 0"
    by (simp add: getDriverRuntime_def LockGetMap_def svc0_def)
  have WF: "\<forall>q. getDriverRuntime svc0 ''eventbus'' = Some q \<longrightarrow> q < nextRef (world0 d st)" for d st
    by (simp add: G world0_def)
  have P: "Data (proposed svc0 ''eventbus'' ''redisqueue'' (JObj ?meta)) = JObj [(''topic'', JStr ''new'')]"
    "DynamicData (proposed svc0 ''eventbus'' ''redisqueue'' (JObj ?meta)) = JNull"
    by (simp_all add: proposed_def svc0_def cfg0_def HasPrefix_def)
  have H: "heap (world0 d st) 0 = rt0 d st" "nextRef (world0 d st) = 1" "trace (world0 d st) = []"
    "Services (world0 d st) = [''engine'' \<mapsto> svc0]" for d st
    by (simp_all add: world0_def)
  have N: "name svc0 = ''engine''" by (simp add: svc0_def)
  from loadFeature_decision [OF S R M WF, of JNull DriverFailed]
       loadFeature_decision [OF S R M WF, of "JObj [(''topic'', JStr ''old'')]" DriverAlive]
       loadFeature_decision [OF S R M WF, of "JObj [(''topic'', JStr ''new'')]" DriverAlive]
  show ?thesis by (simp add: G P H N rt0_def)
qed

text \<open>
  C4.  \<open>hotReload\<close> changes the old runtime object in place: of its fields only
  \<open>Data\<close>, \<open>DynamicData\<close> and \<open>State\<close> (which becomes Reloading) change; it calls
  \<open>SendOptions\<close> on that object; every other object, the catalog of services with its
  slots, and so the object in the slot, are as before.
\<close>

theorem hotReload_frame:
  "hotReload new old w =
     w\<lparr>heap := (heap w)(old := (heap w old)
            \<lparr>Data := Data (heap w new), DynamicData := DynamicData (heap w new),
             State := DriverReloading\<rparr>),
       trace := trace w @ [SendOptions old]\<rparr>
   \<and> Services (hotReload new old w) = Services w
   \<and> Feature (heap (hotReload new old w) old) = Feature (heap w old)
   \<and> Service (heap (hotReload new old w) old) = Service (heap w old)
   \<and> Meta (heap (hotReload new old w) old) = Meta (heap w old)
   \<and> State (heap (hotReload new old w) old) = DriverReloading"
  by (simp add: hotReload_def setRuntime_def emit_def Let_def)



text \<open>
  C6.  Two handlers are expected on one key and no message arrives.  Each timer runs its
  timeout callback, but the entry of the key is still in the table afterwards, with both
  handlers: the branch of the timer for a list of more than one handler removes
  nothing.
\<close>

theorem expect_timeouts_leave_entry:
  "(case addExpect ''state:alive:d'' 1 10 101 svc0 (world0 JNull DriverLoading) of (s1, w1) \<Rightarrow>
    case addExpect ''state:alive:d'' 2 10 102 s1 w1 of (s2, w2) \<Rightarrow>
    case timerFires ''state:alive:d'' 1 101 s2 w2 of (s3, w3) \<Rightarrow>
    case timerFires ''state:alive:d'' 2 102 s3 w3 of (s4, w4) \<Rightarrow>
      (expects s4 ''state:alive:d'', trace w4)) =
   (Some [1, 2],
    [Timer ''state:alive:d'' 1 10 101, Timer ''state:alive:d'' 2 10 102, RunExcept 101, RunExcept 102])"
  by (simp add: addExpect_def timerFires_def isExpecting_def emit_def svc0_def world0_def)

text \<open>
  C7 (amended).  \<open>Drain\<close> sets \<open>healthy\<close> to false and counts the runtimes whose state
  is neither Failed nor Stopped.  When the count is positive it installs a wait-group of
  that count, sends \<open>command:stop\<close> to exactly the counted runtimes and waits with a
  timeout of one second; when the count is zero it installs no wait-group, sends nothing
  and does not wait.  In both cases it calls \<open>AdvanceStage\<close> with \<open>Drained\<close> exactly
  once, last, and changes no runtime.
\<close>

theorem Drain_effects:
  "Services (Drain sn s w) =
     (Services w)(sn \<mapsto> s\<lparr>healthy := False,
        drainingGroup := (if 0 < length (filter (draining w) (driverRuntimes s))
                          then Some (int (length (filter (draining w) (driverRuntimes s))))
                          else drainingGroup s)\<rparr>)
   \<and> trace (Drain sn s w) =
       trace w @
       (if 0 < length (filter (draining w) (driverRuntimes s))
        then map (\<lambda>d. SendMessageTo (snd d) stopMessage) (filter (draining w) (driverRuntimes s))
             @ [WaitGroupWaitTimeout 1000]
        else [])
       @ [AdvanceStage (name s) StageDrained]
   \<and> length (filter isAdvanceStage (drop (length (trace w)) (trace (Drain sn s w)))) = 1
   \<and> heap (Drain sn s w) = heap w"
proof -
  have f: "filter isAdvanceStage (map (\<lambda>d. SendMessageTo (snd d) stopMessage) xs) = []" for xs :: "(string \<times> ref) list"
    by (induction xs) (simp_all add: isAdvanceStage_def)
  show ?thesis
    by (simp add: Drain_def Let_def emit_def setService_def f isAdvanceStage_def)
qed

text \<open>
  C7 as stated fails when nothing is to be drained: the wait-group pointer stays nil
  (no wait-group of count zero is installed) and no bounded wait takes place.
\<close>

theorem Drain_no_runtime_counterexample:
  "drainingGroup (the (Services (Drain ''engine'' (svc0\<lparr>driverRuntimes := []\<rparr>)
       (world0 JNull DriverAlive)) ''engine'')) = None
   \<and> healthy (the (Services (Drain ''engine'' (svc0\<lparr>driverRuntimes := []\<rparr>)
       (world0 JNull DriverAlive)) ''engine'')) = False
   \<and> trace (Drain ''engine'' (svc0\<lparr>driverRuntimes := []\<rparr>) (world0 JNull DriverAlive)) =
       [AdvanceStage ''engine'' StageDrained]"
  by (simp add: Drain_def Let_def emit_def setService_def svc0_def world0_def)

text \<open>
  One call of \<open>handleDriverStop\<close> that runs alone is its three actions in a row.  Run
  alone, a call on a runtime that is already Stopped changes nothing, every call leaves
  the runtime Stopped, and a call on a runtime that is not yet Stopped takes one unit
  off the wait-group.
\<close>

lemma handleDriverStop_steps:
  "handleDriverStop from w =
     (case stopStep from AtCheck w of (pc1, p1, w1) \<Rightarrow>
      case stopStep from pc1 w1 of (pc2, p2, w2) \<Rightarrow>
      case stopStep from pc2 w2 of (pc3, p3, w3) \<Rightarrow> (p3, w3))"
  by (simp add: handleDriverStop_def stopStep_def Let_def split: option.splits)

lemma handleDriverStop_sequential:
  "(State (heap w from) = DriverStopped \<longrightarrow> handleDriverStop from w = (None, w))
   \<and> State (heap (snd (handleDriverStop from w)) from) = DriverStopped
   \<and> handleDriverStop from (snd (handleDriverStop from w)) = (None, snd (handleDriverStop from w))
   \<and> (State (heap w from) \<noteq> DriverStopped \<and> Services w (Service (heap w from)) = Some s
        \<and> drainingGroup s = Some c \<and> 0 < c \<longrightarrow>
       handleDriverStop from w =
         (None, setService (Service (heap w from)) (s\<lparr>drainingGroup := Some (c - 1)\<rparr>)
                  (setRuntime from ((heap w from)\<lparr>State := DriverStopped\<rparr>) w)))"
proof -
  have a: "State (heap w from) = DriverStopped \<Longrightarrow> handleDriverStop from w = (None, w)" for w
    by (simp add: handleDriverStop_def)
  have b: "State (heap (snd (handleDriverStop from w)) from) = DriverStopped"
    by (auto simp: handleDriverStop_def setRuntime_def setService_def Let_def
        split: option.splits)
  have d: "State (heap w from) \<noteq> DriverStopped \<and> Services w (Service (heap w from)) = Some s
        \<and> drainingGroup s = Some c \<and> 0 < c \<Longrightarrow>
       handleDriverStop from w =
         (None, setService (Service (heap w from)) (s\<lparr>drainingGroup := Some (c - 1)\<rparr>)
                  (setRuntime from ((heap w from)\<lparr>State := DriverStopped\<rparr>) w))"
    by (auto simp: handleDriverStop_def setRuntime_def setService_def Let_def)
  show ?thesis using a b a [OF b] d by blast
qed

text \<open>
  C9.  Two \<open>state:stopped\<close> messages of one runtime, handled by two goroutines: both
  read the state before either writes it, so both go on, and \<open>Done\<close> is called twice
  for the one runtime.  With a wait-group of count 1 the second \<open>Done\<close> panics on a
  negative counter; with a wait-group of count 2 (two runtimes to drain) the counter
  reaches 0 although only one runtime has stopped.
\<close>

theorem handleDriverStop_duplicate_race:
  "(case runStops 0 [False, True, False, False, True, True] (AtCheck, AtCheck, drainingWorld 1, []) of
      (pc1, pc2, w, ps) \<Rightarrow>
        (pc1, pc2, State (heap w 0), map_option drainingGroup (Services w ''engine''), ps))
     = (Finished, Finished, DriverStopped, Some (Some 0), [NegativeWaitGroup])
   \<and> (case runStops 0 [False, True, False, False, True, True] (AtCheck, AtCheck, drainingWorld 2, []) of
      (pc1, pc2, w, ps) \<Rightarrow>
        (pc1, pc2, State (heap w 0), map_option drainingGroup (Services w ''engine''), ps))
     = (Finished, Finished, DriverStopped, Some (Some 0), [])"
  by (simp add: stopStep_def drainingWorld_def setService_def setRuntime_def world0_def rt0_def svc0_def)

end
